theory Spec2Isabelle
  imports Main "HOL-Library.Word"
begin

section \<open>Go values used by package gormer\<close>

text \<open>
  The repository holds two iterations of package \<open>gormer\<close>: \<^verbatim>\<open>src/pkg/gormer.go\<close> (generic
  configurations, preloads, post-fetch hooks) and the earlier \<^verbatim>\<open>src/unnamed/part_000\<close>.
  Definitions named as in the source embed \<^verbatim>\<open>src/pkg/gormer.go\<close>; a definition with the
  suffix \<open>_p0\<close> embeds the function of the same name in \<^verbatim>\<open>src/unnamed/part_000\<close>.

  Go's \<open>int\<close> is taken at its 64-bit width, like \<open>int64\<close>: arithmetic wraps around and
  comparisons with \<open>0\<close> read the word as two's complement (\<open>sint\<close>).
\<close>

type_synonym go_int = "64 word"
type_synonym int64 = "64 word"

text \<open>
  Errors. \<open>ErrRecordNotFound\<close> is gorm's sentinel, \<open>ErrorString\<close> is what \<open>fmt.Errorf\<close>
  without verbs and \<open>errors.New\<close> build, \<open>Wrapped\<close> is an error that unwraps to another one.
\<close>

datatype error = ErrRecordNotFound | ErrorString string | Wrapped string error

fun Error_text :: "error \<Rightarrow> string" where
  "Error_text ErrRecordNotFound = ''record not found''"
| "Error_text (ErrorString s) = s"
| "Error_text (Wrapped s e) = s"

fun errors_Is :: "error \<Rightarrow> error \<Rightarrow> bool" where
  "errors_Is (Wrapped s e) target = (Wrapped s e = target \<or> errors_Is e target)"
| "errors_Is e target = (e = target)"

text \<open>A call either returns or panics (nil pointer dereference).\<close>

datatype 'a outcome = Panic | Return 'a

text \<open>
  A slice is \<open>None\<close> when it is nil and \<open>Some xs\<close> otherwise. \<open>append(s, t...)\<close> returns
  \<open>s\<close> itself when \<open>t\<close> has no element and a slice holding the elements of both otherwise.
  Every slice of a configuration is reachable from that configuration only (the source never
  copies a configuration struct), so the sharing of backing arrays is not modelled.
\<close>

type_synonym 'a slice = "'a list option"

definition elems :: "'a slice \<Rightarrow> 'a list" where
  "elems s = (case s of None \<Rightarrow> [] | Some xs \<Rightarrow> xs)"

definition append_slice :: "'a slice \<Rightarrow> 'a slice \<Rightarrow> 'a slice" where
  "append_slice s t = (if elems t = [] then s else Some (elems s @ elems t))"

text \<open>
  Objects reached through pointers live in a heap: \<open>cells\<close> maps an address to the struct
  stored there, and addresses below \<open>top\<close> are allocated. \<open>&T{...}\<close> allocates at \<open>top\<close>.
  A pointer is \<open>None\<close> when nil and \<open>Some address\<close> otherwise.
\<close>

record 'c heap =
  cells :: "nat \<Rightarrow> 'c"
  top :: nat

definition new_object :: "'c \<Rightarrow> 'c heap \<Rightarrow> nat \<times> 'c heap" where
  "new_object v h = (top h, h\<lparr>cells := (cells h)(top h := v), top := Suc (top h)\<rparr>)"

definition store_at :: "nat \<Rightarrow> 'c \<Rightarrow> 'c heap \<Rightarrow> 'c heap" where
  "store_at p v h = h\<lparr>cells := (cells h)(p := v)\<rparr>"

section \<open>The store client\<close>

text \<open>
  \<open>*gorm.DB\<close> is not part of the repository. A non-nil handle is modelled by the statement
  built on it so far: the list of clauses in the order the chain methods added them. Chain
  methods return a new handle and leave their receiver as it was (a handle of a fresh gorm
  session). A method called through a nil handle dereferences it and panics.

  The finisher methods (\<open>Count\<close>, \<open>Find\<close>, \<open>First\<close>, \<open>Create\<close>, \<open>Save\<close>, \<open>Delete\<close>) are
  a parameter: a \<open>store\<close> gives, for a statement and a store state, the value written to the
  output argument, the \<open>Error\<close> field and the next store state. The world records every
  finisher call in \<open>calls\<close> and every \<open>slog.Warn\<close> message in \<open>warnings\<close>.
\<close>

datatype 'arg clause =
    ModelC
  | WhereC string 'arg
  | PreloadC string
  | OrderC string
  | OffsetC go_int
  | LimitC go_int

type_synonym 'arg DB = "'arg clause list"

datatype ('row, 'arg) call =
    CountCall "'arg DB"
  | FindCall "'arg DB"
  | FirstCall "'arg DB"
  | CreateCall "'arg DB" 'row
  | SaveCall "'arg DB" "'row option"
  | DeleteCall "'arg DB" "'row option"

record ('s, 'row, 'arg) store =
  exec_Count :: "'arg DB \<Rightarrow> 's \<Rightarrow> (int64 \<times> error option) \<times> 's"
  exec_Find :: "'arg DB \<Rightarrow> 's \<Rightarrow> (error + 'row list) \<times> 's"
  exec_First :: "'arg DB \<Rightarrow> 's \<Rightarrow> (error + 'row) \<times> 's"
  exec_Create :: "'arg DB \<Rightarrow> 'row \<Rightarrow> 's \<Rightarrow> error option \<times> 's"
  exec_Save :: "'arg DB \<Rightarrow> 'row option \<Rightarrow> 's \<Rightarrow> error option \<times> 's"
  exec_Delete :: "'arg DB \<Rightarrow> 'row option \<Rightarrow> 's \<Rightarrow> error option \<times> 's"

record ('s, 'row, 'arg) world =
  table :: 's
  calls :: "('row, 'arg) call list"
  warnings :: "string list"

definition db_Model :: "'arg DB \<Rightarrow> 'arg DB" where
  "db_Model db = db @ [ModelC]"

definition db_Where :: "'arg DB \<Rightarrow> string \<Rightarrow> 'arg \<Rightarrow> 'arg DB" where
  "db_Where db query args = db @ [WhereC query args]"

definition db_Preload :: "'arg DB \<Rightarrow> string \<Rightarrow> 'arg DB" where
  "db_Preload db name = db @ [PreloadC name]"

definition db_Order :: "'arg DB \<Rightarrow> string \<Rightarrow> 'arg DB" where
  "db_Order db v = db @ [OrderC v]"

definition db_Offset :: "'arg DB \<Rightarrow> go_int \<Rightarrow> 'arg DB" where
  "db_Offset db n = db @ [OffsetC n]"

definition db_Limit :: "'arg DB \<Rightarrow> go_int \<Rightarrow> 'arg DB" where
  "db_Limit db n = db @ [LimitC n]"

definition db_Count ::
  "('s, 'row, 'arg) store \<Rightarrow> 'arg DB \<Rightarrow> ('s, 'row, 'arg) world
    \<Rightarrow> (int64 \<times> error option) \<times> ('s, 'row, 'arg) world" where
  "db_Count S db w =
     (let (r, s') = exec_Count S db (table w)
      in (r, w\<lparr>table := s', calls := calls w @ [CountCall db]\<rparr>))"

definition db_Find ::
  "('s, 'row, 'arg) store \<Rightarrow> 'arg DB \<Rightarrow> ('s, 'row, 'arg) world
    \<Rightarrow> (error + 'row list) \<times> ('s, 'row, 'arg) world" where
  "db_Find S db w =
     (let (r, s') = exec_Find S db (table w)
      in (r, w\<lparr>table := s', calls := calls w @ [FindCall db]\<rparr>))"

definition db_First ::
  "('s, 'row, 'arg) store \<Rightarrow> 'arg DB \<Rightarrow> ('s, 'row, 'arg) world
    \<Rightarrow> (error + 'row) \<times> ('s, 'row, 'arg) world" where
  "db_First S db w =
     (let (r, s') = exec_First S db (table w)
      in (r, w\<lparr>table := s', calls := calls w @ [FirstCall db]\<rparr>))"

definition db_Create ::
  "('s, 'row, 'arg) store \<Rightarrow> 'arg DB \<Rightarrow> 'row \<Rightarrow> ('s, 'row, 'arg) world
    \<Rightarrow> error option \<times> ('s, 'row, 'arg) world" where
  "db_Create S db t w =
     (let (r, s') = exec_Create S db t (table w)
      in (r, w\<lparr>table := s', calls := calls w @ [CreateCall db t]\<rparr>))"

definition db_Save ::
  "('s, 'row, 'arg) store \<Rightarrow> 'arg DB \<Rightarrow> 'row option \<Rightarrow> ('s, 'row, 'arg) world
    \<Rightarrow> error option \<times> ('s, 'row, 'arg) world" where
  "db_Save S db t w =
     (let (r, s') = exec_Save S db t (table w)
      in (r, w\<lparr>table := s', calls := calls w @ [SaveCall db t]\<rparr>))"

definition db_Delete ::
  "('s, 'row, 'arg) store \<Rightarrow> 'arg DB \<Rightarrow> 'row option \<Rightarrow> ('s, 'row, 'arg) world
    \<Rightarrow> error option \<times> ('s, 'row, 'arg) world" where
  "db_Delete S db t w =
     (let (r, s') = exec_Delete S db t (table w)
      in (r, w\<lparr>table := s', calls := calls w @ [DeleteCall db t]\<rparr>))"

section \<open>Declarations common to both iterations\<close>

text \<open>
  \<open>Order\<close>, \<open>Where\<close> and \<open>QueryListResult\<close> are the same in both files, except that
  \<open>Where.Args\<close> is a \<open>string\<close> in \<^verbatim>\<open>src/unnamed/part_000\<close> and an \<open>interface{}\<close> in
  \<^verbatim>\<open>src/pkg/gormer.go\<close>: the type of arguments is a type parameter.
\<close>

type_synonym Order = go_int

definition DESC :: Order where
  "DESC = 0"

definition ASC :: Order where
  "ASC = 1"

definition Order_String :: "Order \<Rightarrow> string" where
  "Order_String ord = (if ord = ASC then ''asc'' else ''desc'')"

record 'arg Where =
  Query :: string
  Args :: 'arg

record 'row QueryListResult =
  Total :: int64
  Page :: go_int
  Data :: "'row list"

fun apply_Wheres :: "'arg DB \<Rightarrow> 'arg Where list \<Rightarrow> 'arg DB" where
  "apply_Wheres db [] = db"
| "apply_Wheres db (wh # whs) = apply_Wheres (db_Where db (Where.Query wh) (Args wh)) whs"

section \<open>The earlier iteration: \<^verbatim>\<open>src/unnamed/part_000\<close>\<close>

record QueryListConfig_p0 =
  PageSize :: go_int
  Page :: go_int
  Order :: Order
  OrderBy :: string
  Wheres :: "string Where slice"

record QueryConfig_p0 =
  Wheres :: "string Where slice"

text \<open>
  \<open>defaultQuery\<close> and \<open>defaultQueryConfig\<close> are package-level pointers, each to one struct
  allocated when the package is initialised: address \<open>0\<close> of the heap of its type.
  \<open>init_heap_p0\<close> and \<open>init_heap_QueryConfig_p0\<close> are these heaps after initialisation.
\<close>

definition defaultQuery_p0 :: nat where
  "defaultQuery_p0 = 0"

definition init_heap_p0 :: "QueryListConfig_p0 heap" where
  "init_heap_p0 =
     \<lparr>cells = (\<lambda>_. \<lparr>PageSize = 10, QueryListConfig_p0.Page = 1, Order = DESC,
                       OrderBy = ''updated_at'', QueryListConfig_p0.Wheres = Some []\<rparr>),
      top = 1\<rparr>"

definition NewQueryListConfig_p0 ::
  "QueryListConfig_p0 heap \<Rightarrow> nat \<times> QueryListConfig_p0 heap" where
  "NewQueryListConfig_p0 h = (defaultQuery_p0, h)"

definition QueryListConfig_WithWheres_p0 ::
  "nat option \<Rightarrow> string Where slice \<Rightarrow> QueryListConfig_p0 heap
    \<Rightarrow> nat option outcome \<times> QueryListConfig_p0 heap" where
  "QueryListConfig_WithWheres_p0 qc wheres h =
     (case qc of
        None \<Rightarrow> (Panic, h)
      | Some p \<Rightarrow>
          (Return qc,
           store_at p ((cells h p)\<lparr>QueryListConfig_p0.Wheres :=
              append_slice (QueryListConfig_p0.Wheres (cells h p)) wheres\<rparr>) h))"

definition WithOrderBy_p0 ::
  "nat option \<Rightarrow> string \<Rightarrow> QueryListConfig_p0 heap
    \<Rightarrow> nat option outcome \<times> QueryListConfig_p0 heap" where
  "WithOrderBy_p0 qc orderBy h =
     (case qc of
        None \<Rightarrow> (Panic, h)
      | Some p \<Rightarrow> (Return qc, store_at p ((cells h p)\<lparr>OrderBy := orderBy\<rparr>) h))"

definition WithOrder_p0 ::
  "nat option \<Rightarrow> Order \<Rightarrow> QueryListConfig_p0 heap
    \<Rightarrow> nat option outcome \<times> QueryListConfig_p0 heap" where
  "WithOrder_p0 qc ord h =
     (case qc of
        None \<Rightarrow> (Panic, h)
      | Some p \<Rightarrow> (Return qc, store_at p ((cells h p)\<lparr>Order := ord\<rparr>) h))"

definition WithPageSize_p0 ::
  "nat option \<Rightarrow> go_int \<Rightarrow> QueryListConfig_p0 heap
    \<Rightarrow> nat option outcome \<times> QueryListConfig_p0 heap" where
  "WithPageSize_p0 qc pageSize h =
     (if sint pageSize \<le> 0 then (Return qc, h)
      else case qc of
        None \<Rightarrow> (Panic, h)
      | Some p \<Rightarrow> (Return qc, store_at p ((cells h p)\<lparr>PageSize := pageSize\<rparr>) h))"

definition WithPage_p0 ::
  "nat option \<Rightarrow> go_int \<Rightarrow> QueryListConfig_p0 heap
    \<Rightarrow> nat option outcome \<times> QueryListConfig_p0 heap" where
  "WithPage_p0 qc page h =
     (if sint page \<le> 0 then (Return qc, h)
      else case qc of
        None \<Rightarrow> (Panic, h)
      | Some p \<Rightarrow>
          (Return qc, store_at p ((cells h p)\<lparr>QueryListConfig_p0.Page := page\<rparr>) h))"

definition defaultQueryConfig_p0 :: nat where
  "defaultQueryConfig_p0 = 0"

definition init_heap_QueryConfig_p0 :: "QueryConfig_p0 heap" where
  "init_heap_QueryConfig_p0 =
     \<lparr>cells = (\<lambda>_. \<lparr>QueryConfig_p0.Wheres = Some []\<rparr>), top = 1\<rparr>"

definition NewQueryConfig_p0 :: "QueryConfig_p0 heap \<Rightarrow> nat \<times> QueryConfig_p0 heap" where
  "NewQueryConfig_p0 h = (defaultQueryConfig_p0, h)"

definition QueryConfig_WithWheres_p0 ::
  "nat option \<Rightarrow> string Where slice \<Rightarrow> QueryConfig_p0 heap
    \<Rightarrow> nat option outcome \<times> QueryConfig_p0 heap" where
  "QueryConfig_WithWheres_p0 qc wheres h =
     (case qc of
        None \<Rightarrow> (Panic, h)
      | Some p \<Rightarrow>
          (Return qc,
           store_at p ((cells h p)\<lparr>QueryConfig_p0.Wheres :=
              append_slice (QueryConfig_p0.Wheres (cells h p)) wheres\<rparr>) h))"

text \<open>
  The query functions read their configuration and never write it, so they take the struct
  their pointer argument points to (\<open>None\<close> for a nil pointer) instead of heap and address.
  In this iteration \<open>QueryList\<close> counts on \<open>tdc\<close> and fetches on \<open>dc\<close>.
\<close>

definition QueryList_p0 ::
  "('s, 'row, string) store \<Rightarrow> string DB option \<Rightarrow> string DB option
    \<Rightarrow> QueryListConfig_p0 option \<Rightarrow> ('s, 'row, string) world
    \<Rightarrow> ('row QueryListResult option \<times> error option) outcome \<times> ('s, 'row, string) world"
  where
  "QueryList_p0 S dc tdc qc w =
     (case qc of
        None \<Rightarrow> (Panic, w)
      | Some c \<Rightarrow>
     (case tdc of
        None \<Rightarrow> (Panic, w)
      | Some tdc0 \<Rightarrow>
          let tdc1 = db_Model tdc0;
              tdc2 = apply_Wheres tdc1 (elems (QueryListConfig_p0.Wheres c));
              ((total, cerr), w1) = db_Count S tdc2 w
          in (case cerr of
               Some err \<Rightarrow> (Return (None, Some err), w1)
             | None \<Rightarrow>
                 let offset = (QueryListConfig_p0.Page c - 1) * PageSize c
                 in (case dc of
                       None \<Rightarrow> (Panic, w1)
                     | Some dc0 \<Rightarrow>
                         let dc1 = db_Model dc0;
                             dc2 = apply_Wheres dc1 (elems (QueryListConfig_p0.Wheres c));
                             (found, w2) =
                               db_Find S
                                 (db_Limit
                                   (db_Offset
                                     (db_Order dc2
                                       (OrderBy c @ '' '' @ Order_String (Order c)))
                                     offset)
                                   (PageSize c)) w1
                         in (case found of
                              Inl err \<Rightarrow> (Return (None, Some err), w2)
                            | Inr rows \<Rightarrow>
                                (Return
                                   (Some \<lparr>Total = total,
                                          QueryListResult.Page = QueryListConfig_p0.Page c,
                                          Data = rows\<rparr>, None),
                                 w2))))))"

definition Create_p0 ::
  "('s, 'row, string) store \<Rightarrow> string DB option \<Rightarrow> 'row \<Rightarrow> ('s, 'row, string) world
    \<Rightarrow> error option \<times> ('s, 'row, string) world" where
  "Create_p0 S db t w =
     (case db of
        None \<Rightarrow> (Some (ErrorString ''get db client failed''), w)
      | Some db0 \<Rightarrow> db_Create S (db_Model db0) t w)"

text \<open>\<open>db.Count(&count)\<close>: the \<open>Error\<close> field of the result is not read.\<close>

definition Exist_p0 ::
  "('s, 'row, string) store \<Rightarrow> string DB option \<Rightarrow> QueryConfig_p0 option
    \<Rightarrow> ('s, 'row, string) world \<Rightarrow> (bool \<times> error option) \<times> ('s, 'row, string) world"
  where
  "Exist_p0 S db qc w =
     (case db of
        None \<Rightarrow> ((False, Some (ErrorString ''get db client failed'')), w)
      | Some db0 \<Rightarrow>
          let db1 = db_Model db0;
              db2 = (case qc of
                       None \<Rightarrow> db1
                     | Some c \<Rightarrow>
                         (case QueryConfig_p0.Wheres c of
                            None \<Rightarrow> db1
                          | Some whs \<Rightarrow> apply_Wheres db1 whs));
              ((count, cerr), w1) = db_Count S db2 w
          in ((0 < sint count, None), w1))"

definition Update_p0 ::
  "('s, 'row, string) store \<Rightarrow> string DB option \<Rightarrow> 'row \<Rightarrow> ('s, 'row, string) world
    \<Rightarrow> error option \<times> ('s, 'row, string) world" where
  "Update_p0 S db t w =
     (case db of
        None \<Rightarrow> (Some (ErrorString ''get db client failed''), w)
      | Some db0 \<Rightarrow> db_Save S (db_Model db0) (Some t) w)"

definition Query_p0 ::
  "('s, 'row, string) store \<Rightarrow> string DB option \<Rightarrow> QueryConfig_p0 option
    \<Rightarrow> ('s, 'row, string) world
    \<Rightarrow> ('row option \<times> error option) \<times> ('s, 'row, string) world" where
  "Query_p0 S db qc w =
     (case db of
        None \<Rightarrow> ((None, Some (ErrorString ''get db client failed'')), w)
      | Some db0 \<Rightarrow>
          let db1 = db_Model db0;
              db2 = (case qc of
                       None \<Rightarrow> db1
                     | Some c \<Rightarrow>
                         (case QueryConfig_p0.Wheres c of
                            None \<Rightarrow> db1
                          | Some whs \<Rightarrow> apply_Wheres db1 whs));
              (found, w1) = db_First S db2 w
          in (case found of
               Inl e \<Rightarrow>
                 if errors_Is e ErrRecordNotFound then ((None, None), w1)
                 else ((None, Some e), w1)
             | Inr t \<Rightarrow> ((Some t, None), w1)))"

definition Delete_p0 ::
  "('s, 'row, string) store \<Rightarrow> string DB option \<Rightarrow> QueryConfig_p0 option
    \<Rightarrow> ('s, 'row, string) world \<Rightarrow> error option \<times> ('s, 'row, string) world" where
  "Delete_p0 S db qc w =
     (case db of
        None \<Rightarrow> (Some (ErrorString ''get db client failed''), w)
      | Some db0 \<Rightarrow>
          let ((exist, err), w1) = Exist_p0 S db qc w
          in (case err of
               Some e \<Rightarrow> (Some e, w1)
             | None \<Rightarrow>
                 if \<not> exist then (None, w1)
                 else
                   let ((t, err2), w2) = Query_p0 S db qc w1
                   in (case err2 of
                        Some e \<Rightarrow> (Some e, w2)
                      | None \<Rightarrow> db_Delete S db0 t w2)))"

section \<open>Configurations of \<^verbatim>\<open>src/pkg/gormer.go\<close>\<close>

type_synonym 'row AdviceItemFunc = "'row \<Rightarrow> 'row \<times> error option"

record ('row, 'arg) QueryListConfig =
  PageSize :: go_int
  Page :: go_int
  Order :: Order
  OrderBy :: string
  Wheres :: "'arg Where slice"
  AdviceItemFuncs :: "'row AdviceItemFunc slice"
  Preloads :: "string slice"

record 'arg QueryConfig =
  Wheres :: "'arg Where slice"
  Preloads :: "string slice"

definition NewQueryListConfig ::
  "('row, 'arg) QueryListConfig heap \<Rightarrow> nat \<times> ('row, 'arg) QueryListConfig heap" where
  "NewQueryListConfig h =
     new_object
       \<lparr>PageSize = 10, QueryListConfig.Page = 1, Order = DESC, OrderBy = ''updated_at'',
        QueryListConfig.Wheres = Some [], AdviceItemFuncs = Some [],
        QueryListConfig.Preloads = Some []\<rparr> h"

definition QueryListConfig_WithWheres ::
  "nat option \<Rightarrow> 'arg Where slice \<Rightarrow> ('row, 'arg) QueryListConfig heap
    \<Rightarrow> nat option outcome \<times> ('row, 'arg) QueryListConfig heap" where
  "QueryListConfig_WithWheres qc wheres h =
     (case qc of
        None \<Rightarrow> (Panic, h)
      | Some p \<Rightarrow>
          (Return qc,
           store_at p ((cells h p)\<lparr>QueryListConfig.Wheres :=
              append_slice (QueryListConfig.Wheres (cells h p)) wheres\<rparr>) h))"

definition QueryListConfig_WithPreloads ::
  "nat option \<Rightarrow> string slice \<Rightarrow> ('row, 'arg) QueryListConfig heap
    \<Rightarrow> nat option outcome \<times> ('row, 'arg) QueryListConfig heap" where
  "QueryListConfig_WithPreloads qc preloads h =
     (case qc of
        None \<Rightarrow> (Panic, h)
      | Some p \<Rightarrow>
          (Return qc,
           store_at p ((cells h p)\<lparr>QueryListConfig.Preloads :=
              append_slice (QueryListConfig.Preloads (cells h p)) preloads\<rparr>) h))"

definition WithAdviceItemFunc ::
  "nat option \<Rightarrow> 'row AdviceItemFunc slice \<Rightarrow> ('row, 'arg) QueryListConfig heap
    \<Rightarrow> nat option outcome \<times> ('row, 'arg) QueryListConfig heap" where
  "WithAdviceItemFunc qc funcs h =
     (case qc of
        None \<Rightarrow> (Panic, h)
      | Some p \<Rightarrow>
          (Return qc,
           store_at p ((cells h p)\<lparr>AdviceItemFuncs :=
              append_slice (AdviceItemFuncs (cells h p)) funcs\<rparr>) h))"

definition WithOrderBy ::
  "nat option \<Rightarrow> string \<Rightarrow> ('row, 'arg) QueryListConfig heap
    \<Rightarrow> nat option outcome \<times> ('row, 'arg) QueryListConfig heap" where
  "WithOrderBy qc orderBy h =
     (case qc of
        None \<Rightarrow> (Panic, h)
      | Some p \<Rightarrow> (Return qc, store_at p ((cells h p)\<lparr>OrderBy := orderBy\<rparr>) h))"

definition WithOrder ::
  "nat option \<Rightarrow> Order \<Rightarrow> ('row, 'arg) QueryListConfig heap
    \<Rightarrow> nat option outcome \<times> ('row, 'arg) QueryListConfig heap" where
  "WithOrder qc ord h =
     (case qc of
        None \<Rightarrow> (Panic, h)
      | Some p \<Rightarrow> (Return qc, store_at p ((cells h p)\<lparr>Order := ord\<rparr>) h))"

definition WithPageSize ::
  "nat option \<Rightarrow> go_int \<Rightarrow> ('row, 'arg) QueryListConfig heap
    \<Rightarrow> nat option outcome \<times> ('row, 'arg) QueryListConfig heap" where
  "WithPageSize qc pageSize h =
     (if sint pageSize \<le> 0 then (Return qc, h)
      else case qc of
        None \<Rightarrow> (Panic, h)
      | Some p \<Rightarrow> (Return qc, store_at p ((cells h p)\<lparr>PageSize := pageSize\<rparr>) h))"

definition WithPage ::
  "nat option \<Rightarrow> go_int \<Rightarrow> ('row, 'arg) QueryListConfig heap
    \<Rightarrow> nat option outcome \<times> ('row, 'arg) QueryListConfig heap" where
  "WithPage qc page h =
     (if sint page \<le> 0 then (Return qc, h)
      else case qc of
        None \<Rightarrow> (Panic, h)
      | Some p \<Rightarrow> (Return qc, store_at p ((cells h p)\<lparr>QueryListConfig.Page := page\<rparr>) h))"

definition NewQueryConfig :: "'arg QueryConfig heap \<Rightarrow> nat \<times> 'arg QueryConfig heap" where
  "NewQueryConfig h =
     new_object \<lparr>QueryConfig.Wheres = Some [], QueryConfig.Preloads = Some []\<rparr> h"

definition QueryConfig_WithWheres ::
  "nat option \<Rightarrow> 'arg Where slice \<Rightarrow> 'arg QueryConfig heap
    \<Rightarrow> nat option outcome \<times> 'arg QueryConfig heap" where
  "QueryConfig_WithWheres qc wheres h =
     (case qc of
        None \<Rightarrow> (Panic, h)
      | Some p \<Rightarrow>
          (Return qc,
           store_at p ((cells h p)\<lparr>QueryConfig.Wheres :=
              append_slice (QueryConfig.Wheres (cells h p)) wheres\<rparr>) h))"

definition QueryConfig_WithPreloads ::
  "nat option \<Rightarrow> string slice \<Rightarrow> 'arg QueryConfig heap
    \<Rightarrow> nat option outcome \<times> 'arg QueryConfig heap" where
  "QueryConfig_WithPreloads qc preloads h =
     (case qc of
        None \<Rightarrow> (Panic, h)
      | Some p \<Rightarrow>
          (Return qc,
           store_at p ((cells h p)\<lparr>QueryConfig.Preloads :=
              append_slice (QueryConfig.Preloads (cells h p)) preloads\<rparr>) h))"

section \<open>The query engine of \<^verbatim>\<open>src/pkg/gormer.go\<close>\<close>

text \<open>
  The query functions read their configuration and never write it, so they take the struct
  their pointer argument points to (\<open>None\<close> for a nil pointer) instead of heap and address.

  \<open>QueryList\<close> reads \<open>qc.Page\<close> in its first statement, which panics on a nil \<open>qc\<close>; every
  later line runs with \<open>qc\<close> non-nil, so of the test \<open>qc != nil && qc.Preloads != nil\<close> only
  the second half is a branch. \<open>dc.Model\<close> and \<open>tdc.Model\<close> panic on a nil handle, the
  second one after the count has run.
\<close>

fun apply_Preloads :: "'arg DB \<Rightarrow> string list \<Rightarrow> 'arg DB" where
  "apply_Preloads db [] = db"
| "apply_Preloads db (preload # ps) = apply_Preloads (db_Preload db preload) ps"

text \<open>
  The inner hook loop: \<open>qr.Data[j], err = itemFunc(datum)\<close> for each row in fetch order,
  then \<open>slog.Warn(err.Error())\<close> when \<open>err\<close> is not nil. The third argument is the log.
  A hook is a function from a row to the pair it returns: non-nil, and with no effect
  besides its result.
\<close>

fun advise_rows ::
  "'row AdviceItemFunc \<Rightarrow> 'row list \<Rightarrow> string list \<Rightarrow> 'row list \<times> string list" where
  "advise_rows itemFunc [] lg = ([], lg)"
| "advise_rows itemFunc (datum # rest) lg =
     (let (v, err) = itemFunc datum;
          lg1 = (case err of None \<Rightarrow> lg | Some e \<Rightarrow> lg @ [Error_text e]);
          (rest', lg2) = advise_rows itemFunc rest lg1
      in (v # rest', lg2))"

fun advise_all ::
  "'row AdviceItemFunc list \<Rightarrow> 'row list \<Rightarrow> string list \<Rightarrow> 'row list \<times> string list" where
  "advise_all [] data lg = (data, lg)"
| "advise_all (itemFunc # fs) data lg =
     (let (data', lg') = advise_rows itemFunc data lg in advise_all fs data' lg')"

definition QueryList ::
  "('s, 'row, 'arg) store \<Rightarrow> 'arg DB option \<Rightarrow> 'arg DB option
    \<Rightarrow> ('row, 'arg) QueryListConfig option \<Rightarrow> ('s, 'row, 'arg) world
    \<Rightarrow> ('row QueryListResult option \<times> error option) outcome \<times> ('s, 'row, 'arg) world" where
  "QueryList S dc tdc qc w =
     (case qc of
        None \<Rightarrow> (Panic, w)
      | Some c \<Rightarrow>
     (case dc of
        None \<Rightarrow> (Panic, w)
      | Some dc0 \<Rightarrow>
          let dc1 = db_Model dc0;
              dc2 = apply_Wheres dc1 (elems (QueryListConfig.Wheres c));
              ((total, cerr), w1) = db_Count S dc2 w
          in (case cerr of
               Some err \<Rightarrow> (Return (None, Some err), w1)
             | None \<Rightarrow>
                 let offset = (QueryListConfig.Page c - 1) * PageSize c
                 in (case tdc of
                       None \<Rightarrow> (Panic, w1)
                     | Some tdc0 \<Rightarrow>
                         let tdc1 = db_Model tdc0;
                             tdc2 = apply_Wheres tdc1 (elems (QueryListConfig.Wheres c));
                             tdc3 = (case QueryListConfig.Preloads c of
                                       None \<Rightarrow> tdc2
                                     | Some ps \<Rightarrow> apply_Preloads tdc2 ps);
                             (found, w2) =
                               db_Find S
                                 (db_Limit
                                   (db_Offset
                                     (db_Order tdc3
                                       (OrderBy c @ '' '' @ Order_String (Order c)))
                                     offset)
                                   (PageSize c)) w1
                         in (case found of
                              Inl err \<Rightarrow> (Return (None, Some err), w2)
                            | Inr rows \<Rightarrow>
                                let (data, lg) =
                                      advise_all (elems (AdviceItemFuncs c)) rows (warnings w2)
                                in (Return
                                      (Some \<lparr>Total = total,
                                             QueryListResult.Page = QueryListConfig.Page c,
                                             Data = data\<rparr>, None),
                                    w2\<lparr>warnings := lg\<rparr>))))))"

definition Create ::
  "('s, 'row, 'arg) store \<Rightarrow> 'arg DB option \<Rightarrow> 'row \<Rightarrow> ('s, 'row, 'arg) world
    \<Rightarrow> error option \<times> ('s, 'row, 'arg) world" where
  "Create S db t w =
     (case db of
        None \<Rightarrow> (Some (ErrorString ''get db client failed''), w)
      | Some db0 \<Rightarrow> db_Create S (db_Model db0) t w)"

definition Exist ::
  "('s, 'row, 'arg) store \<Rightarrow> 'arg DB option \<Rightarrow> 'arg QueryConfig option
    \<Rightarrow> ('s, 'row, 'arg) world \<Rightarrow> (bool \<times> error option) \<times> ('s, 'row, 'arg) world" where
  "Exist S db qc w =
     (case db of
        None \<Rightarrow> ((False, Some (ErrorString ''get db client failed'')), w)
      | Some db0 \<Rightarrow>
          let db1 = db_Model db0;
              db2 = (case qc of
                       None \<Rightarrow> db1
                     | Some c \<Rightarrow>
                         (case QueryConfig.Wheres c of
                            None \<Rightarrow> db1
                          | Some whs \<Rightarrow> apply_Wheres db1 whs));
              ((count, cerr), w1) = db_Count S db2 w
          in (case cerr of
               Some err \<Rightarrow> ((False, Some err), w1)
             | None \<Rightarrow> ((0 < sint count, None), w1)))"

definition Update ::
  "('s, 'row, 'arg) store \<Rightarrow> 'arg DB option \<Rightarrow> 'row option \<Rightarrow> ('s, 'row, 'arg) world
    \<Rightarrow> error option \<times> ('s, 'row, 'arg) world" where
  "Update S db t w =
     (case db of
        None \<Rightarrow> (Some (ErrorString ''get db client failed''), w)
      | Some db0 \<Rightarrow> db_Save S db0 t w)"

definition Query ::
  "('s, 'row, 'arg) store \<Rightarrow> 'arg DB option \<Rightarrow> 'arg QueryConfig option
    \<Rightarrow> ('s, 'row, 'arg) world
    \<Rightarrow> ('row option \<times> error option) \<times> ('s, 'row, 'arg) world" where
  "Query S db qc w =
     (case db of
        None \<Rightarrow> ((None, Some (ErrorString ''get db client failed'')), w)
      | Some db0 \<Rightarrow>
          let db1 = db_Model db0;
              db2 = (case qc of
                       None \<Rightarrow> db1
                     | Some c \<Rightarrow>
                         (case QueryConfig.Wheres c of
                            None \<Rightarrow> db1
                          | Some whs \<Rightarrow> apply_Wheres db1 whs));
              db3 = (case qc of
                       None \<Rightarrow> db2
                     | Some c \<Rightarrow>
                         (case QueryConfig.Preloads c of
                            None \<Rightarrow> db2
                          | Some ps \<Rightarrow> apply_Preloads db2 ps));
              (found, w1) = db_First S db3 w
          in (case found of
               Inl e \<Rightarrow>
                 if errors_Is e ErrRecordNotFound then ((None, None), w1)
                 else ((None, Some e), w1)
             | Inr t \<Rightarrow> ((Some t, None), w1)))"

definition Delete ::
  "('s, 'row, 'arg) store \<Rightarrow> 'arg DB option \<Rightarrow> 'arg QueryConfig option
    \<Rightarrow> ('s, 'row, 'arg) world \<Rightarrow> error option \<times> ('s, 'row, 'arg) world" where
  "Delete S db qc w =
     (case db of
        None \<Rightarrow> (Some (ErrorString ''get db client failed''), w)
      | Some db0 \<Rightarrow>
          let ((t, err), w1) = Query S db qc w
          in (case err of
               Some e \<Rightarrow> (Some e, w1)
             | None \<Rightarrow> db_Delete S db0 t w1))"

section \<open>The statements and results the specification describes\<close>

text \<open>
  Closed forms, written from the specification, of what \<open>QueryList\<close>, \<open>Exist\<close> and
  \<open>Query\<close> hand to the store: the clauses follow the handle's own, in this order.
\<close>

definition where_clause :: "'arg Where \<Rightarrow> 'arg clause" where
  "where_clause wh = WhereC (Where.Query wh) (Args wh)"

definition count_statement :: "'arg DB \<Rightarrow> 'arg Where slice \<Rightarrow> 'arg DB" where
  "count_statement db wheres = db @ [ModelC] @ map where_clause (elems wheres)"

definition fetch_statement ::
  "'arg DB \<Rightarrow> 'arg Where slice \<Rightarrow> string slice \<Rightarrow> string \<Rightarrow> Order \<Rightarrow> go_int \<Rightarrow> go_int
    \<Rightarrow> 'arg DB" where
  "fetch_statement db wheres preloads orderBy ord page pageSize =
     db @ [ModelC] @ map where_clause (elems wheres) @ map PreloadC (elems preloads)
       @ [OrderC (orderBy @ '' '' @ Order_String ord),
          OffsetC ((page - 1) * pageSize),
          LimitC pageSize]"

definition point_statement :: "'arg DB \<Rightarrow> 'arg Where slice \<Rightarrow> string slice \<Rightarrow> 'arg DB" where
  "point_statement db wheres preloads =
     db @ [ModelC] @ map where_clause (elems wheres) @ map PreloadC (elems preloads)"

text \<open>The filters and preloads of a point configuration that may be nil.\<close>

definition filters_of :: "'arg QueryConfig option \<Rightarrow> 'arg Where slice" where
  "filters_of qc = (case qc of None \<Rightarrow> None | Some c \<Rightarrow> QueryConfig.Wheres c)"

definition preloads_of :: "'arg QueryConfig option \<Rightarrow> string slice" where
  "preloads_of qc = (case qc of None \<Rightarrow> None | Some c \<Rightarrow> QueryConfig.Preloads c)"

definition filters_of_p0 :: "QueryConfig_p0 option \<Rightarrow> string Where slice" where
  "filters_of_p0 qc = (case qc of None \<Rightarrow> None | Some c \<Rightarrow> QueryConfig_p0.Wheres c)"

text \<open>
  What the hooks, applied in configuration order to every row in fetch order, leave in
  \<open>Data\<close> and in the log: each row becomes the value its hook returned, whether or not the
  hook also returned an error, and each returned error adds its text to the log.
\<close>

fun hooked_rows :: "'row AdviceItemFunc list \<Rightarrow> 'row list \<Rightarrow> 'row list" where
  "hooked_rows [] rows = rows"
| "hooked_rows (f # fs) rows = hooked_rows fs (map (\<lambda>r. fst (f r)) rows)"

fun hook_warnings :: "'row AdviceItemFunc list \<Rightarrow> 'row list \<Rightarrow> string list" where
  "hook_warnings [] rows = []"
| "hook_warnings (f # fs) rows =
     map Error_text (List.map_filter (\<lambda>r. snd (f r)) rows)
       @ hook_warnings fs (map (\<lambda>r. fst (f r)) rows)"

section \<open>Example stores\<close>

text \<open>
  \<open>mem_store\<close> keeps a table of rows in a list. A where-fragment holds of a row when the
  row equals the fragment's argument; \<open>Find\<close> skips \<open>OFFSET\<close> rows and returns at most
  \<open>LIMIT\<close> rows, a negative limit meaning no limit; \<open>First\<close> reports
  \<open>ErrRecordNotFound\<close> when no row matches; saving or deleting through a nil pointer is
  refused with an error, as gorm refuses an invalid value.
  \<open>down_store\<close> fails every call.
\<close>

fun wheres_hold :: "'a DB \<Rightarrow> 'a \<Rightarrow> bool" where
  "wheres_hold [] r = True"
| "wheres_hold (WhereC q a # cs) r = (r = a \<and> wheres_hold cs r)"
| "wheres_hold (c # cs) r = wheres_hold cs r"

definition stmt_offset :: "'a DB \<Rightarrow> go_int" where
  "stmt_offset db = foldl (\<lambda>acc c. case c of OffsetC n \<Rightarrow> n | _ \<Rightarrow> acc) 0 db"

definition stmt_limit :: "'a DB \<Rightarrow> go_int option" where
  "stmt_limit db = foldl (\<lambda>acc c. case c of LimitC n \<Rightarrow> Some n | _ \<Rightarrow> acc) None db"

definition mem_Find :: "'a DB \<Rightarrow> 'a list \<Rightarrow> 'a list" where
  "mem_Find db s =
     (let matching = filter (wheres_hold db) s;
          skipped = (if sint (stmt_offset db) \<le> 0 then matching
                     else drop (unat (stmt_offset db)) matching)
      in case stmt_limit db of
           None \<Rightarrow> skipped
         | Some n \<Rightarrow> if sint n < 0 then skipped else take (unat n) skipped)"

definition mem_store :: "('a list, 'a, 'a) store" where
  "mem_store =
     \<lparr>exec_Count = (\<lambda>db s. ((of_nat (length (filter (wheres_hold db) s)), None), s)),
      exec_Find = (\<lambda>db s. (Inr (mem_Find db s), s)),
      exec_First = (\<lambda>db s.
         (case filter (wheres_hold db) s of
            [] \<Rightarrow> Inl ErrRecordNotFound
          | r # _ \<Rightarrow> Inr r, s)),
      exec_Create = (\<lambda>db t s. (None, s @ [t])),
      exec_Save = (\<lambda>db t s.
         (case t of
            None \<Rightarrow> (Some (ErrorString ''invalid value''), s)
          | Some r \<Rightarrow> (None, if r \<in> set s then s else s @ [r]))),
      exec_Delete = (\<lambda>db t s.
         (case t of
            None \<Rightarrow> (Some (ErrorString ''invalid value''), s)
          | Some r \<Rightarrow> (None, removeAll r s)))\<rparr>"

definition down_store :: "('a list, 'a, 'a) store" where
  "down_store =
     \<lparr>exec_Count = (\<lambda>db s. ((0, Some (ErrorString ''connection refused'')), s)),
      exec_Find = (\<lambda>db s. (Inl (ErrorString ''connection refused''), s)),
      exec_First = (\<lambda>db s. (Inl (ErrorString ''connection refused''), s)),
      exec_Create = (\<lambda>db t s. (Some (ErrorString ''connection refused''), s)),
      exec_Save = (\<lambda>db t s. (Some (ErrorString ''connection refused''), s)),
      exec_Delete = (\<lambda>db t s. (Some (ErrorString ''connection refused''), s))\<rparr>"

definition world0 :: "'a list \<Rightarrow> ('a list, 'a, 'a) world" where
  "world0 s = \<lparr>table = s, calls = [], warnings = []\<rparr>"

section \<open>Example values\<close>

text \<open>Hooks, configurations and stores on which the theorems below are evaluated.\<close>

definition failing_hook :: "nat AdviceItemFunc" where
  "failing_hook r = (0, Some (ErrorString ''hook failed''))"

definition refusing_hook :: "nat AdviceItemFunc" where
  "refusing_hook r = (r, Some (ErrorString ''hook refused''))"

definition doubling_hook :: "nat AdviceItemFunc" where
  "doubling_hook r = (2 * r, None)"

definition list_config :: "nat AdviceItemFunc list \<Rightarrow> (nat, nat) QueryListConfig" where
  "list_config hooks =
     \<lparr>PageSize = 10, QueryListConfig.Page = 1, Order = DESC, OrderBy = ''updated_at'',
      QueryListConfig.Wheres = Some [], AdviceItemFuncs = Some hooks,
      QueryListConfig.Preloads = Some []\<rparr>"

definition fetch_down_store :: "('a list, 'a, 'a) store" where
  "fetch_down_store = mem_store\<lparr>exec_Find := (\<lambda>db s. (Inl (ErrorString ''fetch failed''), s))\<rparr>"

definition filtered_config :: "(nat, nat) QueryListConfig" where
  "filtered_config =
     \<lparr>PageSize = 2, QueryListConfig.Page = 2, Order = ASC, OrderBy = ''id'',
      QueryListConfig.Wheres = Some [\<lparr>Where.Query = ''id = ?'', Args = 7\<rparr>],
      AdviceItemFuncs = Some [], QueryListConfig.Preloads = Some [''Owner'']\<rparr>"

definition unbounded_config :: "(nat, nat) QueryListConfig" where
  "unbounded_config =
     \<lparr>PageSize = - 1, QueryListConfig.Page = 1, Order = DESC, OrderBy = ''updated_at'',
      QueryListConfig.Wheres = Some [], AdviceItemFuncs = Some [],
      QueryListConfig.Preloads = Some []\<rparr>"

definition point_config :: "nat \<Rightarrow> nat QueryConfig" where
  "point_config k =
     \<lparr>QueryConfig.Wheres = Some [\<lparr>Where.Query = ''id = ?'', Args = k\<rparr>],
      QueryConfig.Preloads = Some []\<rparr>"

definition point_config_p0 :: "string \<Rightarrow> QueryConfig_p0" where
  "point_config_p0 k =
     \<lparr>QueryConfig_p0.Wheres = Some [\<lparr>Where.Query = ''name = ?'', Args = k\<rparr>]\<rparr>"

definition wrapped_store :: "('a list, 'a, 'a) store" where
  "wrapped_store =
     mem_store\<lparr>exec_First :=
       (\<lambda>db s. (Inl (Wrapped ''first failed'' ErrRecordNotFound), s))\<rparr>"

definition no_configs :: "(nat, nat) QueryListConfig heap" where
  "no_configs = \<lparr>cells = (\<lambda>_. list_config []), top = 0\<rparr>"


section \<open>What the loops and the engine compute\<close>

lemma apply_Wheres_eq: "apply_Wheres db whs = db @ map where_clause whs"
  by (induction whs arbitrary: db) (simp_all add: db_Where_def where_clause_def)

lemma apply_Preloads_eq: "apply_Preloads db ps = db @ map PreloadC ps"
  by (induction ps arbitrary: db) (simp_all add: db_Preload_def)

lemma advise_rows_eq:
  "advise_rows f rows lg =
     (map (\<lambda>r. fst (f r)) rows, lg @ map Error_text (List.map_filter (\<lambda>r. snd (f r)) rows))"
  by (induction rows arbitrary: lg)
     (auto split: prod.splits option.splits)

lemma advise_all_eq:
  "advise_all fs rows lg = (hooked_rows fs rows, lg @ hook_warnings fs rows)"
  by (induction fs arbitrary: rows lg) (simp_all add: advise_rows_eq)


lemma hooked_rows_single: "hooked_rows [f] rows = map (\<lambda>r. fst (f r)) rows"
  by simp

lemma hooked_rows_kept:
  assumes "\<forall>f \<in> set fs. \<forall>r. fst (f r) = r"
  shows "hooked_rows fs rows = rows"
  using assms by (induction fs arbitrary: rows) simp_all




lemma QueryList_succeeded:
  assumes "exec_Count S (count_statement dc (QueryListConfig.Wheres c)) (table w)
             = ((n, None), s1)"
      and "exec_Find S
             (fetch_statement tdc (QueryListConfig.Wheres c) (QueryListConfig.Preloads c)
                (QueryListConfig.OrderBy c) (QueryListConfig.Order c)
                (QueryListConfig.Page c) (QueryListConfig.PageSize c)) s1 = (Inr rows, s2)"
  shows "QueryList S (Some dc) (Some tdc) (Some c) w =
           (Return
              (Some \<lparr>Total = n, QueryListResult.Page = QueryListConfig.Page c,
                     Data = hooked_rows (elems (AdviceItemFuncs c)) rows\<rparr>, None),
            w\<lparr>table := s2,
              calls := calls w @
                [CountCall (count_statement dc (QueryListConfig.Wheres c)),
                 FindCall (fetch_statement tdc (QueryListConfig.Wheres c)
                   (QueryListConfig.Preloads c) (QueryListConfig.OrderBy c)
                   (QueryListConfig.Order c) (QueryListConfig.Page c)
                   (QueryListConfig.PageSize c))],
              warnings := warnings w @ hook_warnings (elems (AdviceItemFuncs c)) rows\<rparr>)"
  using assms
  by (simp add: QueryList_def db_Count_def db_Find_def db_Model_def db_Order_def db_Offset_def
      db_Limit_def apply_Wheres_eq apply_Preloads_eq advise_all_eq count_statement_def
      fetch_statement_def elems_def split: option.splits)


text \<open>The same for \<^verbatim>\<open>src/unnamed/part_000\<close>, which counts on \<open>tdc\<close> and has no hooks.\<close>

lemma QueryList_p0_unfold:
  "QueryList_p0 S (Some dc) (Some tdc) (Some c) w =
     (case exec_Count S (count_statement tdc (QueryListConfig_p0.Wheres c)) (table w) of
        ((n, Some e), s1) \<Rightarrow>
          (Return (None, Some e),
           w\<lparr>table := s1,
             calls := calls w @
               [CountCall (count_statement tdc (QueryListConfig_p0.Wheres c))]\<rparr>)
      | ((n, None), s1) \<Rightarrow>
          (case exec_Find S
                  (fetch_statement dc (QueryListConfig_p0.Wheres c) None
                     (QueryListConfig_p0.OrderBy c) (QueryListConfig_p0.Order c)
                     (QueryListConfig_p0.Page c) (QueryListConfig_p0.PageSize c)) s1 of
             (Inl e, s2) \<Rightarrow>
               (Return (None, Some e),
                w\<lparr>table := s2,
                  calls := calls w @
                    [CountCall (count_statement tdc (QueryListConfig_p0.Wheres c)),
                     FindCall (fetch_statement dc (QueryListConfig_p0.Wheres c) None
                       (QueryListConfig_p0.OrderBy c) (QueryListConfig_p0.Order c)
                       (QueryListConfig_p0.Page c) (QueryListConfig_p0.PageSize c))]\<rparr>)
           | (Inr rows, s2) \<Rightarrow>
               (Return
                  (Some \<lparr>Total = n, QueryListResult.Page = QueryListConfig_p0.Page c,
                         Data = rows\<rparr>, None),
                w\<lparr>table := s2,
                  calls := calls w @
                    [CountCall (count_statement tdc (QueryListConfig_p0.Wheres c)),
                     FindCall (fetch_statement dc (QueryListConfig_p0.Wheres c) None
                       (QueryListConfig_p0.OrderBy c) (QueryListConfig_p0.Order c)
                       (QueryListConfig_p0.Page c) (QueryListConfig_p0.PageSize c))]\<rparr>)))"
  by (simp add: QueryList_p0_def db_Count_def db_Find_def db_Model_def db_Order_def
      db_Offset_def db_Limit_def apply_Wheres_eq count_statement_def fetch_statement_def
      elems_def Let_def split: prod.splits option.splits sum.splits)


text \<open>\<open>Query\<close>, \<open>Exist\<close> and \<open>Delete\<close> on a non-nil handle.\<close>

lemma Query_unfold:
  "Query S (Some db) qc w =
     (case exec_First S (point_statement db (filters_of qc) (preloads_of qc)) (table w) of
        (Inl e, s1) \<Rightarrow>
          ((None, if errors_Is e ErrRecordNotFound then None else Some e),
           w\<lparr>table := s1,
             calls := calls w @
               [FirstCall (point_statement db (filters_of qc) (preloads_of qc))]\<rparr>)
      | (Inr t, s1) \<Rightarrow>
          ((Some t, None),
           w\<lparr>table := s1,
             calls := calls w @
               [FirstCall (point_statement db (filters_of qc) (preloads_of qc))]\<rparr>))"
  by (simp add: Query_def db_First_def db_Model_def apply_Wheres_eq apply_Preloads_eq
      point_statement_def filters_of_def preloads_of_def elems_def
      split: prod.splits option.splits sum.splits)

lemma Query_p0_unfold:
  "Query_p0 S (Some db) qc w =
     (case exec_First S (point_statement db (filters_of_p0 qc) None) (table w) of
        (Inl e, s1) \<Rightarrow>
          ((None, if errors_Is e ErrRecordNotFound then None else Some e),
           w\<lparr>table := s1,
             calls := calls w @ [FirstCall (point_statement db (filters_of_p0 qc) None)]\<rparr>)
      | (Inr t, s1) \<Rightarrow>
          ((Some t, None),
           w\<lparr>table := s1,
             calls := calls w @ [FirstCall (point_statement db (filters_of_p0 qc) None)]\<rparr>))"
  by (simp add: Query_p0_def db_First_def db_Model_def apply_Wheres_eq
      point_statement_def filters_of_p0_def elems_def
      split: prod.splits option.splits sum.splits)

lemma Query_p0_outcomes:
  "(exec_First S (point_statement db (filters_of_p0 qc) None) (table w) = (Inl e, s1)
      \<and> errors_Is e ErrRecordNotFound
      \<longrightarrow> fst (Query_p0 S (Some db) qc w) = (None, None))
   \<and> (exec_First S (point_statement db (filters_of_p0 qc) None) (table w) = (Inl e, s1)
      \<and> \<not> errors_Is e ErrRecordNotFound
      \<longrightarrow> fst (Query_p0 S (Some db) qc w) = (None, Some e))
   \<and> (exec_First S (point_statement db (filters_of_p0 qc) None) (table w) = (Inr t, s1)
      \<longrightarrow> fst (Query_p0 S (Some db) qc w) = (Some t, None))"
  by (simp add: Query_p0_unfold)

lemma Exist_unfold:
  "Exist S (Some db) qc w =
     (case exec_Count S (count_statement db (filters_of qc)) (table w) of
        ((n, Some e), s1) \<Rightarrow>
          ((False, Some e),
           w\<lparr>table := s1,
             calls := calls w @ [CountCall (count_statement db (filters_of qc))]\<rparr>)
      | ((n, None), s1) \<Rightarrow>
          ((0 < sint n, None),
           w\<lparr>table := s1,
             calls := calls w @ [CountCall (count_statement db (filters_of qc))]\<rparr>))"
  by (simp add: Exist_def db_Count_def db_Model_def apply_Wheres_eq
      count_statement_def filters_of_def elems_def
      split: prod.splits option.splits)

lemma Exist_p0_unfold:
  "Exist_p0 S (Some db) qc w =
     (case exec_Count S (count_statement db (filters_of_p0 qc)) (table w) of
        ((n, cerr), s1) \<Rightarrow>
          ((0 < sint n, None),
           w\<lparr>table := s1,
             calls := calls w @ [CountCall (count_statement db (filters_of_p0 qc))]\<rparr>))"
  by (simp add: Exist_p0_def db_Count_def db_Model_def apply_Wheres_eq
      count_statement_def filters_of_p0_def elems_def
      split: prod.splits option.splits)

lemma Exist_count:
  "(exec_Count S (count_statement db (filters_of qc)) (table w) = ((n, None), s1)
      \<longrightarrow> fst (Exist S (Some db) qc w) = (0 < sint n, None))
   \<and> (exec_Count S (count_statement db (filters_of qc)) (table w) = ((n, Some e), s1)
      \<longrightarrow> fst (Exist S (Some db) qc w) = (False, Some e))"
  by (simp add: Exist_unfold)

lemma Delete_unfold:
  "Delete S (Some db) qc w =
     (case Query S (Some db) qc w of
        ((t, Some e), w1) \<Rightarrow> (Some e, w1)
      | ((t, None), w1) \<Rightarrow> db_Delete S db t w1)"
  by (simp add: Delete_def split: prod.splits option.splits)

lemma Delete_not_found:
  assumes "exec_First S (point_statement db (filters_of qc) (preloads_of qc)) (table w)
             = (Inl e, s1)"
      and "errors_Is e ErrRecordNotFound"
  shows "Delete S (Some db) qc w =
           (fst (exec_Delete S db None s1),
            w\<lparr>table := snd (exec_Delete S db None s1),
              calls := calls w @
                [FirstCall (point_statement db (filters_of qc) (preloads_of qc)),
                 DeleteCall db None]\<rparr>)"
  using assms by (simp add: Delete_unfold Query_unfold db_Delete_def split: prod.splits)

lemma Delete_found:
  assumes "exec_First S (point_statement db (filters_of qc) (preloads_of qc)) (table w)
             = (Inr t, s1)"
  shows "Delete S (Some db) qc w =
           (fst (exec_Delete S db (Some t) s1),
            w\<lparr>table := snd (exec_Delete S db (Some t) s1),
              calls := calls w @
                [FirstCall (point_statement db (filters_of qc) (preloads_of qc)),
                 DeleteCall db (Some t)]\<rparr>)"
  using assms by (simp add: Delete_unfold Query_unfold db_Delete_def split: prod.splits)

lemma Delete_store_failure:
  assumes "exec_First S (point_statement db (filters_of qc) (preloads_of qc)) (table w)
             = (Inl e, s1)"
      and "\<not> errors_Is e ErrRecordNotFound"
  shows "Delete S (Some db) qc w =
           (Some e,
            w\<lparr>table := s1,
              calls := calls w @
                [FirstCall (point_statement db (filters_of qc) (preloads_of qc))]\<rparr>)"
  using assms by (simp add: Delete_unfold Query_unfold split: prod.splits)

lemma Delete_p0_no_match:
  assumes "exec_Count S (count_statement db (filters_of_p0 qc)) (table w) = ((n, cerr), s1)"
      and "sint n \<le> 0"
  shows "Delete_p0 S (Some db) qc w =
           (None,
            w\<lparr>table := s1,
              calls := calls w @ [CountCall (count_statement db (filters_of_p0 qc))]\<rparr>)"
  using assms by (simp add: Delete_p0_def Exist_p0_unfold)

lemma Delete_p0_found:
  assumes "exec_Count S (count_statement db (filters_of_p0 qc)) (table w) = ((n, cerr), s1)"
      and "0 < sint n"
      and "exec_First S (point_statement db (filters_of_p0 qc) None) s1 = (Inr t, s2)"
  shows "Delete_p0 S (Some db) qc w =
           (fst (exec_Delete S db (Some t) s2),
            w\<lparr>table := snd (exec_Delete S db (Some t) s2),
              calls := calls w @
                [CountCall (count_statement db (filters_of_p0 qc)),
                 FirstCall (point_statement db (filters_of_p0 qc) None),
                 DeleteCall db (Some t)]\<rparr>)"
  using assms
  by (simp add: Delete_p0_def Exist_p0_unfold Query_p0_unfold db_Delete_def split: prod.splits)


text \<open>Allocation and the frame of the builder methods of \<^verbatim>\<open>src/pkg/gormer.go\<close>.\<close>

lemma NewQueryListConfig_fresh:
  "fst (NewQueryListConfig h) = top h
   \<and> top (snd (NewQueryListConfig h)) = Suc (top h)
   \<and> cells (snd (NewQueryListConfig h)) (top h) =
       \<lparr>PageSize = 10, QueryListConfig.Page = 1, Order = DESC, OrderBy = ''updated_at'',
        QueryListConfig.Wheres = Some [], AdviceItemFuncs = Some [],
        QueryListConfig.Preloads = Some []\<rparr>
   \<and> (\<forall>q. q \<noteq> top h \<longrightarrow> cells (snd (NewQueryListConfig h)) q = cells h q)"
  by (simp add: NewQueryListConfig_def new_object_def)

lemma NewQueryConfig_fresh:
  "fst (NewQueryConfig h) = top h
   \<and> top (snd (NewQueryConfig h)) = Suc (top h)
   \<and> cells (snd (NewQueryConfig h)) (top h) =
       \<lparr>QueryConfig.Wheres = Some [], QueryConfig.Preloads = Some []\<rparr>
   \<and> (\<forall>q. q \<noteq> top h \<longrightarrow> cells (snd (NewQueryConfig h)) q = cells h q)"
  by (simp add: NewQueryConfig_def new_object_def)

lemma QueryListConfig_With_frame:
  assumes "q \<noteq> p"
  shows "cells (snd (QueryListConfig_WithWheres (Some p) wheres h)) q = cells h q"
    and "cells (snd (QueryListConfig_WithPreloads (Some p) preloads h)) q = cells h q"
    and "cells (snd (WithAdviceItemFunc (Some p) funcs h)) q = cells h q"
    and "cells (snd (WithOrderBy (Some p) orderBy h)) q = cells h q"
    and "cells (snd (WithOrder (Some p) ord h)) q = cells h q"
    and "cells (snd (WithPageSize (Some p) n h)) q = cells h q"
    and "cells (snd (WithPage (Some p) n h)) q = cells h q"
  using assms
  by (simp_all add: QueryListConfig_WithWheres_def QueryListConfig_WithPreloads_def
      WithAdviceItemFunc_def WithOrderBy_def WithOrder_def WithPageSize_def WithPage_def
      store_at_def)

lemma QueryConfig_With_frame:
  assumes "q \<noteq> p"
  shows "cells (snd (QueryConfig_WithWheres (Some p) wheres h)) q = cells h q"
    and "cells (snd (QueryConfig_WithPreloads (Some p) preloads h)) q = cells h q"
  using assms
  by (simp_all add: QueryConfig_WithWheres_def QueryConfig_WithPreloads_def store_at_def)

lemma separate_QueryListConfigs_independent:
  assumes "NewQueryListConfig h = (p1, h1)"
      and "NewQueryListConfig h1 = (p2, h2)"
  shows "p1 \<noteq> p2"
    and "cells (snd (QueryListConfig_WithWheres (Some p1) wheres h2)) p2 = cells h2 p2"
    and "cells (snd (QueryListConfig_WithWheres (Some p2) wheres h2)) p1 = cells h2 p1"
    and "cells h2 p1 = cells h2 p2"
    and "QueryListConfig.Wheres
           (cells (snd (QueryListConfig_WithWheres (Some p1) wheres h2)) p1)
         = append_slice (Some []) wheres"
  using assms
  by (auto simp: NewQueryListConfig_def new_object_def QueryListConfig_WithWheres_def
      store_at_def)

lemma separate_QueryConfigs_independent:
  assumes "NewQueryConfig h = (p1, h1)"
      and "NewQueryConfig h1 = (p2, h2)"
  shows "p1 \<noteq> p2"
    and "cells (snd (QueryConfig_WithWheres (Some p1) wheres h2)) p2 = cells h2 p2"
    and "cells (snd (QueryConfig_WithWheres (Some p2) wheres h2)) p1 = cells h2 p1"
    and "cells h2 p1 = cells h2 p2"
  using assms
  by (auto simp: NewQueryConfig_def new_object_def QueryConfig_WithWheres_def store_at_def)

lemma WithPageSize_WithPage_clamp_p0:
  "(sint n \<le> 0 \<longrightarrow>
      WithPageSize_p0 qc n h = (Return qc, h) \<and> WithPage_p0 qc n h = (Return qc, h))
   \<and> (0 < sint n \<longrightarrow>
      WithPageSize_p0 (Some p) n h
        = (Return (Some p), store_at p ((cells h p)\<lparr>QueryListConfig_p0.PageSize := n\<rparr>) h)
      \<and> QueryListConfig_p0.PageSize (cells (snd (WithPageSize_p0 (Some p) n h)) p) = n
      \<and> WithPage_p0 (Some p) n h
        = (Return (Some p), store_at p ((cells h p)\<lparr>QueryListConfig_p0.Page := n\<rparr>) h)
      \<and> QueryListConfig_p0.Page (cells (snd (WithPage_p0 (Some p) n h)) p) = n)"
  by (simp add: WithPageSize_p0_def WithPage_p0_def store_at_def)


text \<open>Unfolding the example values.\<close>

lemmas store_eval = mem_store_def down_store_def fetch_down_store_def world0_def
  count_statement_def fetch_statement_def point_statement_def where_clause_def elems_def
  mem_Find_def stmt_offset_def stmt_limit_def Order_String_def DESC_def ASC_def
  list_config_def failing_hook_def refusing_hook_def doubling_hook_def

lemmas cfg_eval = filtered_config_def unbounded_config_def point_config_def point_config_p0_def wrapped_store_def


lemma Exist_example:
  "Exist down_store (Some []) (Some (point_config 1)) (world0 [1, 2])
     = ((False, Some (ErrorString ''connection refused'')),
        \<lparr>table = [1, 2], calls = [CountCall [ModelC, WhereC ''id = ?'' 1]], warnings = []\<rparr>)
   \<and> fst (Exist mem_store (Some []) (Some (point_config 1)) (world0 [1, 2])) = (True, None)
   \<and> fst (Exist mem_store (Some []) (Some (point_config 9)) (world0 [1, 2])) = (False, None)"
  by (simp add: Exist_unfold store_eval cfg_eval filters_of_def)

lemma Delete_p0_no_match_example:
  "Delete_p0 mem_store (Some []) (Some (point_config_p0 ''zoe'')) (world0 [''ann'', ''bob''])
     = (None,
        \<lparr>table = [''ann'', ''bob''],
         calls = [CountCall [ModelC, WhereC ''name = ?'' ''zoe'']],
         warnings = []\<rparr>)"
  by (simp add: Delete_p0_def Exist_p0_unfold store_eval cfg_eval filters_of_p0_def)


section \<open>The claims\<close>

text \<open>
  C1. In \<open>QueryList\<close>, an error returned by a hook (\<open>AdviceItemFunc\<close>) is not fatal: it is
  logged as a warning and \<open>QueryList\<close> still returns a non-nil result and no error. The claim
  adds that the row retains its pre-hook value. The code assigns \<open>qr.Data[j], err =
  itemFunc(datum)\<close> before it looks at \<open>err\<close>, so the row becomes whatever value the hook
  returned with the error. As amended: once count and fetch have succeeded, the call
  returns a non-nil result with no error, \<open>Data\<close> holds for every row the value its hooks
  returned (\<open>hooked_rows\<close>: the pre-hook value only where the hook returns its argument), and
  the log gains the text of every error a hook returned, in order (\<open>hook_warnings\<close>).
\<close>

theorem QueryList_hook_errors_logged:
  assumes "exec_Count S (count_statement dc (QueryListConfig.Wheres c)) (table w)
             = ((n, None), s1)"
      and "exec_Find S
             (fetch_statement tdc (QueryListConfig.Wheres c) (QueryListConfig.Preloads c)
                (QueryListConfig.OrderBy c) (QueryListConfig.Order c)
                (QueryListConfig.Page c) (QueryListConfig.PageSize c)) s1 = (Inr rows, s2)"
  shows "fst (QueryList S (Some dc) (Some tdc) (Some c) w) =
           Return (Some \<lparr>Total = n, QueryListResult.Page = QueryListConfig.Page c,
                          Data = hooked_rows (elems (AdviceItemFuncs c)) rows\<rparr>, None)
         \<and> warnings (snd (QueryList S (Some dc) (Some tdc) (Some c) w)) =
             warnings w @ hook_warnings (elems (AdviceItemFuncs c)) rows"
  by (simp add: QueryList_succeeded [OF assms])


theorem QueryList_hook_errors_logged_witness:
  "exec_Count mem_store
     (count_statement [] (QueryListConfig.Wheres (list_config [refusing_hook, doubling_hook])))
     (table (world0 [5, 6 :: nat])) = ((2, None), [5, 6])
   \<and> exec_Find mem_store
       (fetch_statement [] (QueryListConfig.Wheres (list_config [refusing_hook, doubling_hook]))
          (QueryListConfig.Preloads (list_config [refusing_hook, doubling_hook]))
          (QueryListConfig.OrderBy (list_config [refusing_hook, doubling_hook]))
          (QueryListConfig.Order (list_config [refusing_hook, doubling_hook]))
          (QueryListConfig.Page (list_config [refusing_hook, doubling_hook]))
          (QueryListConfig.PageSize (list_config [refusing_hook, doubling_hook])))
       [5, 6] = (Inr [5, 6], [5, 6])
   \<and> fst (QueryList mem_store (Some []) (Some [])
          (Some (list_config [refusing_hook, doubling_hook])) (world0 [5, 6]))
       = Return (Some \<lparr>Total = 2, QueryListResult.Page = 1, Data = [10, 12]\<rparr>, None)
   \<and> warnings (snd (QueryList mem_store (Some []) (Some [])
          (Some (list_config [refusing_hook, doubling_hook])) (world0 [5, 6])))
       = [''hook refused'', ''hook refused'']"
proof -
  have c: "exec_Count mem_store
     (count_statement [] (QueryListConfig.Wheres (list_config [refusing_hook, doubling_hook])))
     (table (world0 [5, 6 :: nat])) = ((2, None), [5, 6])"
    by (simp add: store_eval)
  have f: "exec_Find mem_store
       (fetch_statement [] (QueryListConfig.Wheres (list_config [refusing_hook, doubling_hook]))
          (QueryListConfig.Preloads (list_config [refusing_hook, doubling_hook]))
          (QueryListConfig.OrderBy (list_config [refusing_hook, doubling_hook]))
          (QueryListConfig.Order (list_config [refusing_hook, doubling_hook]))
          (QueryListConfig.Page (list_config [refusing_hook, doubling_hook]))
          (QueryListConfig.PageSize (list_config [refusing_hook, doubling_hook])))
       [5, 6 :: nat] = (Inr [5, 6], [5, 6])"
    by (simp add: store_eval)
  show ?thesis
    using c f QueryList_hook_errors_logged [OF c f]
    by (simp add: store_eval)
qed


text \<open>
  The claim as stated fails: the store fetches the rows 5 and 6, the hook returns the zero
  value with an error on each, and the result holds 0 and 0.
\<close>

theorem hook_error_replaces_row:
  "exec_Find mem_store
     [ModelC, OrderC ''updated_at desc'', OffsetC 0, LimitC 10] [5, 6 :: nat]
     = (Inr [5, 6], [5, 6])
   \<and> failing_hook 5 = (0, Some (ErrorString ''hook failed''))
   \<and> QueryList mem_store (Some []) (Some []) (Some (list_config [failing_hook]))
       (world0 [5, 6])
     = (Return (Some \<lparr>Total = 2, QueryListResult.Page = 1, Data = [0, 0]\<rparr>, None),
        \<lparr>table = [5, 6],
         calls = [CountCall [ModelC],
                  FindCall [ModelC, OrderC ''updated_at desc'', OffsetC 0, LimitC 10]],
         warnings = [''hook failed'', ''hook failed'']\<rparr>)"
  by (simp add: QueryList_def db_Count_def db_Find_def db_Model_def db_Order_def db_Offset_def
      db_Limit_def store_eval)


text \<open>
  C2. For a non-nil handle and a point configuration whose filters match no row, \<open>Delete\<close>
  returns no error and performs no store-level deletion; when a row matches, \<open>Delete\<close>
  deletes that row. In \<^verbatim>\<open>src/pkg/gormer.go\<close> the first half fails: \<open>Query\<close> answers
  \<open>(nil, nil)\<close> for no match, and \<open>Delete\<close> then calls \<open>db.Delete(nil)\<close> and returns the
  store's answer (\<open>Delete_not_found\<close>). \<^verbatim>\<open>src/unnamed/part_000\<close> has the guard
  (\<open>Delete_p0_no_match\<close>); the second half holds in both (\<open>Delete_found\<close>,
  \<open>Delete_p0_found\<close>). The theorem runs \<open>Delete\<close> of \<^verbatim>\<open>src/pkg/gormer.go\<close> on a table
  with rows 1 and 2 and the filter \<open>id = 9\<close>.
\<close>

theorem Delete_no_match_calls_store:
  "exec_First mem_store [ModelC, WhereC ''id = ?'' 9] [1, 2 :: nat]
     = (Inl ErrRecordNotFound, [1, 2])
   \<and> Delete mem_store (Some []) (Some (point_config 9)) (world0 [1, 2])
     = (Some (ErrorString ''invalid value''),
        \<lparr>table = [1, 2],
         calls = [FirstCall [ModelC, WhereC ''id = ?'' 9], DeleteCall [] None],
         warnings = []\<rparr>)"
  by (simp add: Delete_unfold Query_unfold db_Delete_def store_eval cfg_eval filters_of_def
      preloads_of_def)


text \<open>
  C3. For a non-nil handle, \<open>Exist\<close> returns true exactly when the filtered count is
  greater than zero, and when the count call fails it returns that failure as an error
  instead of false with no error. \<open>Exist\<close> of \<^verbatim>\<open>src/pkg/gormer.go\<close> does
  (\<open>Exist_count\<close>). \<open>Exist\<close> of \<^verbatim>\<open>src/unnamed/part_000\<close> never reads the \<open>Error\<close> of
  \<open>db.Count(&count)\<close>: the theorem runs it on a store whose count fails.
\<close>

theorem Exist_p0_drops_count_error:
  "exec_Count down_store [ModelC, WhereC ''name = ?'' ''ann''] [''ann'', ''bob'']
     = ((0, Some (ErrorString ''connection refused'')), [''ann'', ''bob''])
   \<and> Exist_p0 down_store (Some []) (Some (point_config_p0 ''ann'')) (world0 [''ann'', ''bob''])
     = ((False, None),
        \<lparr>table = [''ann'', ''bob''],
         calls = [CountCall [ModelC, WhereC ''name = ?'' ''ann'']],
         warnings = []\<rparr>)"
  by (simp add: Exist_p0_unfold store_eval cfg_eval filters_of_p0_def)


text \<open>
  C4. Every call of \<open>NewQueryListConfig\<close> and \<open>NewQueryConfig\<close> returns a fresh instance
  with the defaults, so that changing one configuration leaves another one unchanged.
  \<^verbatim>\<open>src/pkg/gormer.go\<close> allocates a struct per call
  (\<open>separate_QueryListConfigs_independent\<close>, \<open>separate_QueryConfigs_independent\<close>).
  \<^verbatim>\<open>src/unnamed/part_000\<close> returns the package-level \<open>defaultQuery\<close> and
  \<open>defaultQueryConfig\<close> from every call: two calls give the same address, and \<open>WithWheres\<close>
  through it changes the filters every holder of the pointer sees.
\<close>

theorem NewQueryListConfig_p0_shared:
  "NewQueryListConfig_p0 init_heap_p0 = (0, init_heap_p0)
   \<and> NewQueryListConfig_p0 (snd (NewQueryListConfig_p0 init_heap_p0)) = (0, init_heap_p0)
   \<and> QueryListConfig_p0.Wheres (cells init_heap_p0 0) = Some []
   \<and> QueryListConfig_p0.Wheres
       (cells (snd (QueryListConfig_WithWheres_p0 (Some 0)
                      (Some [\<lparr>Where.Query = ''name = ?'', Args = ''ann''\<rparr>]) init_heap_p0)) 0)
       = Some [\<lparr>Where.Query = ''name = ?'', Args = ''ann''\<rparr>]
   \<and> NewQueryConfig_p0 init_heap_QueryConfig_p0 = (0, init_heap_QueryConfig_p0)
   \<and> NewQueryConfig_p0 (snd (NewQueryConfig_p0 init_heap_QueryConfig_p0))
       = (0, init_heap_QueryConfig_p0)
   \<and> QueryConfig_p0.Wheres (cells init_heap_QueryConfig_p0 0) = Some []
   \<and> QueryConfig_p0.Wheres
       (cells (snd (QueryConfig_WithWheres_p0 (Some 0)
                      (Some [\<lparr>Where.Query = ''name = ?'', Args = ''ann''\<rparr>])
                      init_heap_QueryConfig_p0)) 0)
       = Some [\<lparr>Where.Query = ''name = ?'', Args = ''ann''\<rparr>]"
  by (simp add: NewQueryListConfig_p0_def NewQueryConfig_p0_def defaultQuery_p0_def
      defaultQueryConfig_p0_def init_heap_p0_def init_heap_QueryConfig_p0_def
      QueryListConfig_WithWheres_p0_def QueryConfig_WithWheres_p0_def store_at_def
      append_slice_def elems_def)











text \<open>
  C7. For a non-nil handle and any point configuration, \<open>Query\<close> returns a nil value and no
  error when the store reports that no row matches (\<open>First\<close> fails with an error that is
  \<open>gorm.ErrRecordNotFound\<close>), a nil value and the store's error for any other failure, and
  the row with no error when one matches. \<open>Query_p0_outcomes\<close> is the same statement for
  \<^verbatim>\<open>src/unnamed/part_000\<close>.
\<close>

theorem Query_outcomes:
  "(exec_First S (point_statement db (filters_of qc) (preloads_of qc)) (table w) = (Inl e, s1)
      \<and> errors_Is e ErrRecordNotFound
      \<longrightarrow> fst (Query S (Some db) qc w) = (None, None))
   \<and> (exec_First S (point_statement db (filters_of qc) (preloads_of qc)) (table w) = (Inl e, s1)
      \<and> \<not> errors_Is e ErrRecordNotFound
      \<longrightarrow> fst (Query S (Some db) qc w) = (None, Some e))
   \<and> (exec_First S (point_statement db (filters_of qc) (preloads_of qc)) (table w) = (Inr t, s1)
      \<longrightarrow> fst (Query S (Some db) qc w) = (Some t, None))"
  by (simp add: Query_unfold)


theorem Query_outcomes_witness:
  "fst (Query mem_store (Some []) (Some (point_config 9)) (world0 [1, 2])) = (None, None)
   \<and> fst (Query wrapped_store (Some []) (Some (point_config 9)) (world0 [1, 2])) = (None, None)
   \<and> fst (Query down_store (Some []) (Some (point_config 9)) (world0 [1, 2]))
       = (None, Some (ErrorString ''connection refused''))
   \<and> fst (Query mem_store (Some []) (Some (point_config 2)) (world0 [1, 2])) = (Some 2, None)"
proof -
  have a: "exec_First mem_store
             (point_statement [] (filters_of (Some (point_config 9)))
                (preloads_of (Some (point_config 9)))) (table (world0 [1, 2]))
           = (Inl ErrRecordNotFound, [1, 2]) \<and> errors_Is ErrRecordNotFound ErrRecordNotFound"
    by (simp add: store_eval cfg_eval filters_of_def preloads_of_def)
  have b: "exec_First wrapped_store
             (point_statement [] (filters_of (Some (point_config 9)))
                (preloads_of (Some (point_config 9)))) (table (world0 [1, 2]))
           = (Inl (Wrapped ''first failed'' ErrRecordNotFound), [1, 2])
           \<and> errors_Is (Wrapped ''first failed'' ErrRecordNotFound) ErrRecordNotFound"
    by (simp add: store_eval cfg_eval filters_of_def preloads_of_def)
  have c: "exec_First down_store
             (point_statement [] (filters_of (Some (point_config 9)))
                (preloads_of (Some (point_config 9)))) (table (world0 [1, 2]))
           = (Inl (ErrorString ''connection refused''), [1, 2])
           \<and> \<not> errors_Is (ErrorString ''connection refused'') ErrRecordNotFound"
    by (simp add: store_eval cfg_eval filters_of_def preloads_of_def)
  have d: "exec_First mem_store
             (point_statement [] (filters_of (Some (point_config 2)))
                (preloads_of (Some (point_config 2)))) (table (world0 [1, 2]))
           = (Inr 2, [1, 2])"
    by (simp add: store_eval cfg_eval filters_of_def preloads_of_def)
  from a Query_outcomes [of mem_store "[]" "Some (point_config 9)" "world0 [1, 2]"
                            ErrRecordNotFound "[1, 2]"]
  have ra: "fst (Query mem_store (Some []) (Some (point_config 9)) (world0 [1, 2]))
              = (None, None)"
    by blast
  from b Query_outcomes [of wrapped_store "[]" "Some (point_config 9)" "world0 [1, 2]"
                            "Wrapped ''first failed'' ErrRecordNotFound" "[1, 2]"]
  have rb: "fst (Query wrapped_store (Some []) (Some (point_config 9)) (world0 [1, 2]))
              = (None, None)"
    by blast
  from c Query_outcomes [of down_store "[]" "Some (point_config 9)" "world0 [1, 2]"
                            "ErrorString ''connection refused''" "[1, 2]"]
  have rc: "fst (Query down_store (Some []) (Some (point_config 9)) (world0 [1, 2]))
              = (None, Some (ErrorString ''connection refused''))"
    by blast
  from d Query_outcomes [of mem_store "[]" "Some (point_config 2)" "world0 [1, 2]"
                            e "[1, 2]" 2]
  have rd: "fst (Query mem_store (Some []) (Some (point_config 2)) (world0 [1, 2]))
              = (Some 2, None)"
    by blast
  from ra rb rc rd show ?thesis by simp
qed


text \<open>
  C8. \<open>WithPageSize\<close> and \<open>WithPage\<close> called with a zero or negative argument return their
  receiver and leave the configuration as it was, so a configuration fresh from the
  constructor keeps page size 10 and page 1; called with a positive argument they set the
  field to it and return their receiver. \<open>WithPageSize_WithPage_clamp_p0\<close> is the same
  statement for \<^verbatim>\<open>src/unnamed/part_000\<close>.
\<close>

theorem WithPageSize_WithPage_clamp:
  "(sint n \<le> 0 \<longrightarrow>
      WithPageSize qc n h = (Return qc, h) \<and> WithPage qc n h = (Return qc, h))
   \<and> (0 < sint n \<longrightarrow>
      WithPageSize (Some p) n h
        = (Return (Some p), store_at p ((cells h p)\<lparr>PageSize := n\<rparr>) h)
      \<and> QueryListConfig.PageSize (cells (snd (WithPageSize (Some p) n h)) p) = n
      \<and> WithPage (Some p) n h
        = (Return (Some p), store_at p ((cells h p)\<lparr>QueryListConfig.Page := n\<rparr>) h)
      \<and> QueryListConfig.Page (cells (snd (WithPage (Some p) n h)) p) = n)
   \<and> (sint n \<le> 0 \<longrightarrow>
      QueryListConfig.PageSize
        (cells (snd (WithPageSize (Some (fst (NewQueryListConfig h))) n
                       (snd (NewQueryListConfig h)))) (fst (NewQueryListConfig h))) = 10
      \<and> QueryListConfig.Page
        (cells (snd (WithPage (Some (fst (NewQueryListConfig h))) n
                       (snd (NewQueryListConfig h)))) (fst (NewQueryListConfig h))) = 1)"
  by (simp add: WithPageSize_def WithPage_def store_at_def NewQueryListConfig_def new_object_def)


theorem WithPageSize_WithPage_clamp_witness:
  "sint (0 :: go_int) \<le> 0
   \<and> WithPageSize (Some 0) 0 (snd (NewQueryListConfig no_configs))
       = (Return (Some 0), snd (NewQueryListConfig no_configs))
   \<and> QueryListConfig.PageSize
       (cells (snd (WithPageSize (Some 0) 0 (snd (NewQueryListConfig no_configs)))) 0) = 10
   \<and> sint (- 5 :: go_int) \<le> 0
   \<and> WithPage (Some 0) (- 5) (snd (NewQueryListConfig no_configs))
       = (Return (Some 0), snd (NewQueryListConfig no_configs))
   \<and> QueryListConfig.Page
       (cells (snd (WithPage (Some 0) (- 5) (snd (NewQueryListConfig no_configs)))) 0) = 1
   \<and> 0 < sint (25 :: go_int)
   \<and> QueryListConfig.PageSize
       (cells (snd (WithPageSize (Some 0) 25 (snd (NewQueryListConfig no_configs)))) 0) = 25
   \<and> QueryListConfig.Page
       (cells (snd (WithPage (Some 0) 25 (snd (NewQueryListConfig no_configs)))) 0) = 25"
proof -
  have z: "sint (0 :: go_int) \<le> 0" and m: "sint (- 5 :: go_int) \<le> 0"
    and p: "0 < sint (25 :: go_int)"
    by simp_all
  have a: "fst (NewQueryListConfig no_configs) = 0"
    by (simp add: NewQueryListConfig_def new_object_def no_configs_def)
  from z m p a
    WithPageSize_WithPage_clamp [of 0 "Some 0" "snd (NewQueryListConfig no_configs)" 0]
    WithPageSize_WithPage_clamp [of "- 5" "Some 0" "snd (NewQueryListConfig no_configs)" 0]
    WithPageSize_WithPage_clamp [of 0 "Some 0" no_configs 0]
    WithPageSize_WithPage_clamp [of "- 5" "Some 0" no_configs 0]
    WithPageSize_WithPage_clamp [of 25 "Some 0" "snd (NewQueryListConfig no_configs)" 0]
  show ?thesis by (simp add: store_at_def)
qed


text \<open>
  C9. \<open>Create\<close>, \<open>Update\<close>, \<open>Delete\<close>, \<open>Exist\<close> and \<open>Query\<close> answer a nil handle with the
  error "get db client failed" and leave the store untouched. \<open>QueryList\<close> has no such
  guard: it dereferences its configuration first, so a nil configuration panics whatever
  the handles are; a nil count handle panics; a nil fetch handle panics after the count has
  run on the store, unless the count failed and its error was returned.
\<close>

theorem QueryList_has_no_nil_guard:
  "Create S None t w = (Some (ErrorString ''get db client failed''), w)
   \<and> Update S None u w = (Some (ErrorString ''get db client failed''), w)
   \<and> Delete S None qc w = (Some (ErrorString ''get db client failed''), w)
   \<and> Exist S None qc w = ((False, Some (ErrorString ''get db client failed'')), w)
   \<and> Query S None qc w = ((None, Some (ErrorString ''get db client failed'')), w)
   \<and> QueryList S dc tdc None w = (Panic, w)
   \<and> QueryList S None tdc (Some c) w = (Panic, w)
   \<and> fst (QueryList S (Some db) None (Some c) w) =
       (case snd (fst (exec_Count S (count_statement db (QueryListConfig.Wheres c)) (table w))) of
          Some e \<Rightarrow> Return (None, Some e)
        | None \<Rightarrow> Panic)
   \<and> calls (snd (QueryList S (Some db) None (Some c) w)) =
       calls w @ [CountCall (count_statement db (QueryListConfig.Wheres c))]"
  by (simp add: Create_def Update_def Delete_def Exist_def Query_def QueryList_def
      db_Count_def db_Model_def apply_Wheres_eq count_statement_def Let_def
      split: prod.splits option.splits)


text \<open>
  C10. On a non-nil handle, \<open>Exist\<close>, \<open>Query\<close> and \<open>Delete\<close> accept a nil point
  configuration and treat it exactly as a configuration with no filters and no preloads.
  The statement sent to the store is the handle's with the model binding alone, so the
  operation runs against all rows: \<open>Exist\<close> answers by the count of that statement (or its
  error), \<open>Query\<close> by its first row (nil when the store reports none), and \<open>Delete\<close>
  fetches that first row and hands it to the store's \<open>Delete\<close>, whose answer it returns.
\<close>

theorem nil_QueryConfig_is_empty_config:
  "Exist S (Some db) None w
     = Exist S (Some db) (Some \<lparr>QueryConfig.Wheres = Some [], QueryConfig.Preloads = Some []\<rparr>) w
   \<and> Query S (Some db) None w
     = Query S (Some db) (Some \<lparr>QueryConfig.Wheres = Some [], QueryConfig.Preloads = Some []\<rparr>) w
   \<and> Delete S (Some db) None w
     = Delete S (Some db) (Some \<lparr>QueryConfig.Wheres = Some [], QueryConfig.Preloads = Some []\<rparr>) w
   \<and> calls (snd (Exist S (Some db) None w)) = calls w @ [CountCall (db @ [ModelC])]
   \<and> calls (snd (Query S (Some db) None w)) = calls w @ [FirstCall (db @ [ModelC])]
   \<and> Exist S (Some db) None w =
       (case exec_Count S (db @ [ModelC]) (table w) of
          ((n, Some e), s1) \<Rightarrow>
            ((False, Some e), w\<lparr>table := s1, calls := calls w @ [CountCall (db @ [ModelC])]\<rparr>)
        | ((n, None), s1) \<Rightarrow>
            ((0 < sint n, None),
             w\<lparr>table := s1, calls := calls w @ [CountCall (db @ [ModelC])]\<rparr>))
   \<and> Query S (Some db) None w =
       (case exec_First S (db @ [ModelC]) (table w) of
          (Inl e, s1) \<Rightarrow>
            ((None, if errors_Is e ErrRecordNotFound then None else Some e),
             w\<lparr>table := s1, calls := calls w @ [FirstCall (db @ [ModelC])]\<rparr>)
        | (Inr t, s1) \<Rightarrow>
            ((Some t, None),
             w\<lparr>table := s1, calls := calls w @ [FirstCall (db @ [ModelC])]\<rparr>))
   \<and> Delete S (Some db) None w =
       (case exec_First S (db @ [ModelC]) (table w) of
          (Inl e, s1) \<Rightarrow>
            if errors_Is e ErrRecordNotFound
            then (fst (exec_Delete S db None s1),
                  w\<lparr>table := snd (exec_Delete S db None s1),
                    calls := calls w @ [FirstCall (db @ [ModelC]), DeleteCall db None]\<rparr>)
            else (Some e, w\<lparr>table := s1, calls := calls w @ [FirstCall (db @ [ModelC])]\<rparr>)
        | (Inr t, s1) \<Rightarrow>
            (fst (exec_Delete S db (Some t) s1),
             w\<lparr>table := snd (exec_Delete S db (Some t) s1),
               calls := calls w @ [FirstCall (db @ [ModelC]), DeleteCall db (Some t)]\<rparr>))"
proof -
  have same:
    "filters_of (Some \<lparr>QueryConfig.Wheres = Some [], QueryConfig.Preloads = Some []\<rparr>) = Some []"
    "preloads_of (Some \<lparr>QueryConfig.Wheres = Some [], QueryConfig.Preloads = Some []\<rparr>) = Some []"
    "filters_of None = None" "preloads_of None = None"
    by (simp_all add: filters_of_def preloads_of_def)
  have stmts:
    "count_statement db None = db @ [ModelC]" "count_statement db (Some []) = db @ [ModelC]"
    "point_statement db None None = db @ [ModelC]"
    "point_statement db (Some []) (Some []) = db @ [ModelC]"
    by (simp_all add: count_statement_def point_statement_def elems_def)
  have ex: "Exist S (Some db) None w =
       (case exec_Count S (db @ [ModelC]) (table w) of
          ((n, Some e), s1) \<Rightarrow>
            ((False, Some e), w\<lparr>table := s1, calls := calls w @ [CountCall (db @ [ModelC])]\<rparr>)
        | ((n, None), s1) \<Rightarrow>
            ((0 < sint n, None),
             w\<lparr>table := s1, calls := calls w @ [CountCall (db @ [ModelC])]\<rparr>))"
    by (simp add: Exist_unfold same stmts split: prod.splits option.splits)
  have ex': "Exist S (Some db)
               (Some \<lparr>QueryConfig.Wheres = Some [], QueryConfig.Preloads = Some []\<rparr>) w
             = Exist S (Some db) None w"
    by (simp add: Exist_unfold same stmts split: prod.splits option.splits)
  have qu: "Query S (Some db) None w =
       (case exec_First S (db @ [ModelC]) (table w) of
          (Inl e, s1) \<Rightarrow>
            ((None, if errors_Is e ErrRecordNotFound then None else Some e),
             w\<lparr>table := s1, calls := calls w @ [FirstCall (db @ [ModelC])]\<rparr>)
        | (Inr t, s1) \<Rightarrow>
            ((Some t, None),
             w\<lparr>table := s1, calls := calls w @ [FirstCall (db @ [ModelC])]\<rparr>))"
    by (simp add: Query_unfold same stmts split: prod.splits sum.splits)
  have qu': "Query S (Some db)
               (Some \<lparr>QueryConfig.Wheres = Some [], QueryConfig.Preloads = Some []\<rparr>) w
             = Query S (Some db) None w"
    by (simp add: Query_unfold same stmts split: prod.splits sum.splits)
  have de: "Delete S (Some db) None w =
       (case exec_First S (db @ [ModelC]) (table w) of
          (Inl e, s1) \<Rightarrow>
            if errors_Is e ErrRecordNotFound
            then (fst (exec_Delete S db None s1),
                  w\<lparr>table := snd (exec_Delete S db None s1),
                    calls := calls w @ [FirstCall (db @ [ModelC]), DeleteCall db None]\<rparr>)
            else (Some e, w\<lparr>table := s1, calls := calls w @ [FirstCall (db @ [ModelC])]\<rparr>)
        | (Inr t, s1) \<Rightarrow>
            (fst (exec_Delete S db (Some t) s1),
             w\<lparr>table := snd (exec_Delete S db (Some t) s1),
               calls := calls w @ [FirstCall (db @ [ModelC]), DeleteCall db (Some t)]\<rparr>))"
    by (simp add: Delete_unfold qu db_Delete_def split: prod.splits sum.splits)
  have de': "Delete S (Some db)
               (Some \<lparr>QueryConfig.Wheres = Some [], QueryConfig.Preloads = Some []\<rparr>) w
             = Delete S (Some db) None w"
    by (simp add: Delete_unfold qu')
  have ec: "calls (snd (Exist S (Some db) None w)) = calls w @ [CountCall (db @ [ModelC])]"
    by (simp add: ex split: prod.splits option.splits)
  have qc: "calls (snd (Query S (Some db) None w)) = calls w @ [FirstCall (db @ [ModelC])]"
    by (simp add: qu split: prod.splits sum.splits)
  from ex ex' qu qu' de de' ec qc show ?thesis
    by (simp only: simp_thms)
qed

theorem nil_QueryConfig_is_empty_config_witness:
  "Exist mem_store (Some []) None (world0 [1, 2 :: nat])
     = ((True, None), \<lparr>table = [1, 2], calls = [CountCall [ModelC]], warnings = []\<rparr>)
   \<and> Query mem_store (Some []) None (world0 [1, 2 :: nat])
     = ((Some 1, None), \<lparr>table = [1, 2], calls = [FirstCall [ModelC]], warnings = []\<rparr>)
   \<and> Delete mem_store (Some []) None (world0 [1, 2 :: nat])
     = (None,
        \<lparr>table = [2], calls = [FirstCall [ModelC], DeleteCall [] (Some 1)], warnings = []\<rparr>)
   \<and> Delete mem_store (Some [])
       (Some \<lparr>QueryConfig.Wheres = Some [], QueryConfig.Preloads = Some []\<rparr>)
       (world0 [1, 2 :: nat])
     = (None,
        \<lparr>table = [2], calls = [FirstCall [ModelC], DeleteCall [] (Some 1)], warnings = []\<rparr>)
   \<and> Exist down_store (Some []) None (world0 [1, 2 :: nat])
     = ((False, Some (ErrorString ''connection refused'')),
        \<lparr>table = [1, 2], calls = [CountCall [ModelC]], warnings = []\<rparr>)"
proof -
  note at_mem = nil_QueryConfig_is_empty_config [of mem_store "[]" "world0 [1, 2 :: nat]"]
  note at_down = nil_QueryConfig_is_empty_config [of down_store "[]" "world0 [1, 2 :: nat]"]
  from at_mem have "Exist mem_store (Some []) None (world0 [1, 2 :: nat]) =
       (case exec_Count mem_store ([] @ [ModelC]) (table (world0 [1, 2 :: nat])) of
          ((n, Some e), s1) \<Rightarrow>
            ((False, Some e),
             (world0 [1, 2])\<lparr>table := s1,
               calls := calls (world0 [1, 2]) @ [CountCall ([] @ [ModelC])]\<rparr>)
        | ((n, None), s1) \<Rightarrow>
            ((0 < sint n, None),
             (world0 [1, 2])\<lparr>table := s1,
               calls := calls (world0 [1, 2]) @ [CountCall ([] @ [ModelC])]\<rparr>))"
    by blast
  also have "\<dots> = ((True, None),
                  \<lparr>table = [1, 2], calls = [CountCall [ModelC]], warnings = []\<rparr>)"
    by (simp add: store_eval)
  finally have e: "Exist mem_store (Some []) None (world0 [1, 2 :: nat])
     = ((True, None), \<lparr>table = [1, 2], calls = [CountCall [ModelC]], warnings = []\<rparr>)" .
  from at_mem have "Query mem_store (Some []) None (world0 [1, 2 :: nat]) =
       (case exec_First mem_store ([] @ [ModelC]) (table (world0 [1, 2 :: nat])) of
          (Inl e, s1) \<Rightarrow>
            ((None, if errors_Is e ErrRecordNotFound then None else Some e),
             (world0 [1, 2])\<lparr>table := s1,
               calls := calls (world0 [1, 2]) @ [FirstCall ([] @ [ModelC])]\<rparr>)
        | (Inr t, s1) \<Rightarrow>
            ((Some t, None),
             (world0 [1, 2])\<lparr>table := s1,
               calls := calls (world0 [1, 2]) @ [FirstCall ([] @ [ModelC])]\<rparr>))"
    by blast
  also have "\<dots> = ((Some 1, None),
                  \<lparr>table = [1, 2], calls = [FirstCall [ModelC]], warnings = []\<rparr>)"
    by (simp add: store_eval)
  finally have q: "Query mem_store (Some []) None (world0 [1, 2 :: nat])
     = ((Some 1, None), \<lparr>table = [1, 2], calls = [FirstCall [ModelC]], warnings = []\<rparr>)" .
  from at_mem have "Delete mem_store (Some []) None (world0 [1, 2 :: nat]) =
       (case exec_First mem_store ([] @ [ModelC]) (table (world0 [1, 2 :: nat])) of
          (Inl e, s1) \<Rightarrow>
            if errors_Is e ErrRecordNotFound
            then (fst (exec_Delete mem_store [] None s1),
                  (world0 [1, 2])\<lparr>table := snd (exec_Delete mem_store [] None s1),
                    calls := calls (world0 [1, 2])
                      @ [FirstCall ([] @ [ModelC]), DeleteCall [] None]\<rparr>)
            else (Some e,
                  (world0 [1, 2])\<lparr>table := s1,
                    calls := calls (world0 [1, 2]) @ [FirstCall ([] @ [ModelC])]\<rparr>)
        | (Inr t, s1) \<Rightarrow>
            (fst (exec_Delete mem_store [] (Some t) s1),
             (world0 [1, 2])\<lparr>table := snd (exec_Delete mem_store [] (Some t) s1),
               calls := calls (world0 [1, 2])
                 @ [FirstCall ([] @ [ModelC]), DeleteCall [] (Some t)]\<rparr>))"
    by blast
  also have "\<dots> = (None,
        \<lparr>table = [2], calls = [FirstCall [ModelC], DeleteCall [] (Some 1)], warnings = []\<rparr>)"
    by (simp add: store_eval)
  finally have d: "Delete mem_store (Some []) None (world0 [1, 2 :: nat])
     = (None,
        \<lparr>table = [2], calls = [FirstCall [ModelC], DeleteCall [] (Some 1)], warnings = []\<rparr>)" .
  from at_mem have d': "Delete mem_store (Some [])
       (Some \<lparr>QueryConfig.Wheres = Some [], QueryConfig.Preloads = Some []\<rparr>)
       (world0 [1, 2 :: nat])
     = Delete mem_store (Some []) None (world0 [1, 2 :: nat])"
    by simp
  from at_down have "Exist down_store (Some []) None (world0 [1, 2 :: nat]) =
       (case exec_Count down_store ([] @ [ModelC]) (table (world0 [1, 2 :: nat])) of
          ((n, Some e), s1) \<Rightarrow>
            ((False, Some e),
             (world0 [1, 2])\<lparr>table := s1,
               calls := calls (world0 [1, 2]) @ [CountCall ([] @ [ModelC])]\<rparr>)
        | ((n, None), s1) \<Rightarrow>
            ((0 < sint n, None),
             (world0 [1, 2])\<lparr>table := s1,
               calls := calls (world0 [1, 2]) @ [CountCall ([] @ [ModelC])]\<rparr>))"
    by blast
  also have "\<dots> = ((False, Some (ErrorString ''connection refused'')),
        \<lparr>table = [1, 2], calls = [CountCall [ModelC]], warnings = []\<rparr>)"
    by (simp add: store_eval)
  finally have x: "Exist down_store (Some []) None (world0 [1, 2 :: nat])
     = ((False, Some (ErrorString ''connection refused'')),
        \<lparr>table = [1, 2], calls = [CountCall [ModelC]], warnings = []\<rparr>)" .
  from e q d d' x show ?thesis by simp
qed

end
